theory Spec2Isabelle
  imports Main "HOL-Library.Sublist"
begin

section \<open>core/models.py: ShortenedURL\<close>

text \<open>
  Timestamps are integers (seconds); \<open>timezone.now()\<close> is passed in as \<open>now\<close>.
  The record keeps the fields of the model that the redirect path reads or writes;
  \<open>clicks\<close> and \<open>max_clicks\<close> are PositiveIntegerFields (0 is a storable value),
  \<open>expires_at\<close> and \<open>max_clicks\<close> are nullable, \<open>password\<close> is a CharField whose
  blank value is the empty string.
\<close>

type_synonym datetime = int

record ShortenedURL =
  original_url :: string
  short_code :: string
  clicks :: nat
  is_active :: bool
  updated_at :: datetime
  expires_at :: "datetime option"
  password :: string
  max_clicks :: "nat option"

text \<open>
  \<open>if self.expires_at: return timezone.now() > self.expires_at\<close>, else False.
  A datetime object is always truthy, so the test is a test for None.
\<close>

definition is_expired :: "ShortenedURL \<Rightarrow> datetime \<Rightarrow> bool" where
  "is_expired l now = (case expires_at l of None \<Rightarrow> False | Some e \<Rightarrow> now > e)"

text \<open>
  \<open>self.max_clicks and self.clicks >= self.max_clicks\<close>: Python's \<open>and\<close> tests the
  truth value of \<open>max_clicks\<close>, which is false for None and for the integer 0.
\<close>

definition quota_reached :: "ShortenedURL \<Rightarrow> bool" where
  "quota_reached l =
     (case max_clicks l of None \<Rightarrow> False | Some m \<Rightarrow> m \<noteq> 0 \<and> clicks l \<ge> m)"

definition can_be_accessed :: "ShortenedURL \<Rightarrow> datetime \<Rightarrow> bool" where
  "can_be_accessed l now =
     (if \<not> is_active l then False
      else if is_expired l now then False
      else if quota_reached l then False
      else True)"

definition has_password :: "ShortenedURL \<Rightarrow> bool" where
  "has_password l = (password l \<noteq> [])"

text \<open>
  The password hasher is Django's (\<open>django.contrib.auth.hashers\<close>), not code of this
  repository: \<open>make_password\<close> and the library's \<open>check_password(raw, encoded)\<close> are
  parameters of the model.
\<close>

record hasher =
  make_password :: "string \<Rightarrow> string"
  hashers_check_password :: "string \<Rightarrow> string \<Rightarrow> bool"

definition set_password :: "hasher \<Rightarrow> ShortenedURL \<Rightarrow> string \<Rightarrow> ShortenedURL" where
  "set_password h l raw_password =
     (if raw_password \<noteq> [] then l\<lparr>password := make_password h raw_password\<rparr>
      else l\<lparr>password := []\<rparr>)"

definition check_password :: "hasher \<Rightarrow> ShortenedURL \<Rightarrow> string \<Rightarrow> bool" where
  "check_password h l raw_password =
     (if password l = [] then True
      else hashers_check_password h raw_password (password l))"

text \<open>
  The quota rule in the words of the specification: a link is exhausted when
  \<open>max_clicks\<close> is set and \<open>clicks >= max_clicks\<close>.
\<close>

definition quota_exhausted_spec :: "ShortenedURL \<Rightarrow> bool" where
  "quota_exhausted_spec l =
     (case max_clicks l of None \<Rightarrow> False | Some m \<Rightarrow> clicks l \<ge> m)"

definition can_be_accessed_spec :: "ShortenedURL \<Rightarrow> datetime \<Rightarrow> bool" where
  "can_be_accessed_spec l now =
     (is_active l
      \<and> (case expires_at l of None \<Rightarrow> True | Some e \<Rightarrow> now \<le> e)
      \<and> \<not> quota_exhausted_spec l)"

section \<open>core/utils.py: the user-agent classifier\<close>

text \<open>
  Strings are lists of 8-bit characters, as a WSGI server hands header values over
  (Latin-1). \<open>str.lower()\<close> maps \<open>A..Z\<close> to \<open>a..z\<close> and the upper-case letters of
  Latin-1 (\<open>0xC0..0xDE\<close> without \<open>0xD7\<close>) to their lower-case forms, 32 further on.
\<close>

definition lower_char :: "char \<Rightarrow> char" where
  "lower_char c =
     (let n = (of_char c :: nat) in
      if (65 \<le> n \<and> n \<le> 90) \<or> (192 \<le> n \<and> n \<le> 222 \<and> n \<noteq> 215)
      then char_of (n + 32) else c)"

definition lower :: "string \<Rightarrow> string" where
  "lower s = map lower_char s"

text \<open>Python's \<open>sub in s\<close> on strings: \<open>sub\<close> occurs in \<open>s\<close> as a contiguous run.\<close>

fun str_in :: "string \<Rightarrow> string \<Rightarrow> bool" where
  "str_in sub [] = (sub = [])"
| "str_in sub (c # cs) = (prefix sub (c # cs) \<or> str_in sub cs)"

text \<open>The dict with the keys \<open>device_type\<close>, \<open>browser\<close>, \<open>operating_system\<close>.\<close>

record ua_data =
  ua_device_type :: string
  ua_browser :: string
  ua_operating_system :: string

definition parse_user_agent_fallback :: "string \<Rightarrow> ua_data" where
  "parse_user_agent_fallback user_agent_string =
     (let ua = lower user_agent_string;
          device =
            (if list_ex (\<lambda>mobile. str_in mobile ua) [''mobile'', ''android'', ''iphone'', ''ipod'']
             then ''Mobile''
             else if str_in ''ipad'' ua \<or> str_in ''tablet'' ua then ''Tablet''
             else ''Desktop'');
          browser =
            (if str_in ''chrome'' ua \<and> \<not> str_in ''edge'' ua then ''Chrome''
             else if str_in ''firefox'' ua then ''Firefox''
             else if str_in ''safari'' ua \<and> \<not> str_in ''chrome'' ua then ''Safari''
             else if str_in ''edge'' ua then ''Edge''
             else if str_in ''opera'' ua \<or> str_in ''opr'' ua then ''Opera''
             else if str_in ''msie'' ua \<or> str_in ''trident'' ua then ''Internet Explorer''
             else ''Unknown'');
          os =
            (if str_in ''windows'' ua then ''Windows''
             else if str_in ''macintosh'' ua \<or> str_in ''mac os'' ua then ''macOS''
             else if str_in ''linux'' ua then ''Linux''
             else if str_in ''android'' ua then ''Android''
             else if str_in ''ios'' ua \<or> str_in ''iphone'' ua \<or> str_in ''ipad'' ua then ''iOS''
             else ''Unknown'')
      in \<lparr>ua_device_type = device, ua_browser = browser, ua_operating_system = os\<rparr>)"

text \<open>
  The keyword table in the words of the specification: each output is the label of the
  first rule, in priority order, whose keywords occur in the lower-cased string, and
  the stated default when no rule applies. Occurrence is \<^const>\<open>sublist\<close>: the keyword
  is a contiguous part of the string.
\<close>

fun first_match :: "(bool \<times> string) list \<Rightarrow> string \<Rightarrow> string" where
  "first_match [] otherwise = otherwise"
| "first_match ((applies, label) # rules) otherwise =
     (if applies then label else first_match rules otherwise)"

definition device_table :: "string \<Rightarrow> (bool \<times> string) list" where
  "device_table ua =
     [(sublist ''mobile'' ua \<or> sublist ''android'' ua \<or> sublist ''iphone'' ua
         \<or> sublist ''ipod'' ua, ''Mobile''),
      (sublist ''ipad'' ua \<or> sublist ''tablet'' ua, ''Tablet'')]"

definition browser_table :: "string \<Rightarrow> (bool \<times> string) list" where
  "browser_table ua =
     [(sublist ''chrome'' ua \<and> \<not> sublist ''edge'' ua, ''Chrome''),
      (sublist ''firefox'' ua, ''Firefox''),
      (sublist ''safari'' ua \<and> \<not> sublist ''chrome'' ua, ''Safari''),
      (sublist ''edge'' ua, ''Edge''),
      (sublist ''opera'' ua \<or> sublist ''opr'' ua, ''Opera''),
      (sublist ''msie'' ua \<or> sublist ''trident'' ua, ''Internet Explorer'')]"

definition os_table :: "string \<Rightarrow> (bool \<times> string) list" where
  "os_table ua =
     [(sublist ''windows'' ua, ''Windows''),
      (sublist ''macintosh'' ua \<or> sublist ''mac os'' ua, ''macOS''),
      (sublist ''linux'' ua, ''Linux''),
      (sublist ''android'' ua, ''Android''),
      (sublist ''ios'' ua \<or> sublist ''iphone'' ua \<or> sublist ''ipad'' ua, ''iOS'')]"

definition classify_by_table :: "string \<Rightarrow> ua_data" where
  "classify_by_table user_agent_string =
     \<lparr>ua_device_type = first_match (device_table (lower user_agent_string)) ''Desktop'',
      ua_browser = first_match (browser_table (lower user_agent_string)) ''Unknown'',
      ua_operating_system = first_match (os_table (lower user_agent_string)) ''Unknown''\<rparr>"

text \<open>
  The \<open>user_agents\<close> library is external. \<open>HAS_USER_AGENTS = False\<close> is the library
  \<open>None\<close>; otherwise \<open>ua_parse\<close> is a function that either raises (\<open>None\<close>) or yields
  the attributes the code reads.
\<close>

record parsed_ua =
  is_mobile :: bool
  is_tablet :: bool
  is_pc :: bool
  browser_family :: string
  browser_version_string :: string
  os_family :: string
  os_version_string :: string

type_synonym ua_library = "(string \<Rightarrow> parsed_ua option) option"

definition parse_user_agent :: "ua_library \<Rightarrow> string \<Rightarrow> ua_data" where
  "parse_user_agent lib user_agent_string =
     (if user_agent_string = [] then
        \<lparr>ua_device_type = ''Unknown'', ua_browser = ''Unknown'',
         ua_operating_system = ''Unknown''\<rparr>
      else case lib of
        None \<Rightarrow> parse_user_agent_fallback user_agent_string
      | Some ua_parse \<Rightarrow>
          (case ua_parse user_agent_string of
             None \<Rightarrow> parse_user_agent_fallback user_agent_string
           | Some user_agent \<Rightarrow>
               (let device =
                      (if is_mobile user_agent then ''Mobile''
                       else if is_tablet user_agent then ''Tablet''
                       else if is_pc user_agent then ''Desktop''
                       else ''Unknown'');
                    browser =
                      browser_family user_agent @
                      (if browser_version_string user_agent \<noteq> []
                       then '' '' @ browser_version_string user_agent else []);
                    os =
                      os_family user_agent @
                      (if os_version_string user_agent \<noteq> []
                       then '' '' @ os_version_string user_agent else [])
                in \<lparr>ua_device_type = device, ua_browser = take 100 browser,
                    ua_operating_system = take 100 os\<rparr>)))"

section \<open>core/utils.py: the IP geolocator\<close>

text \<open>
  A decoded JSON document, as \<open>response.json()\<close> returns it. An object is its list of
  key/value pairs, the first pair of a key being the one the dict holds.
\<close>

datatype json =
    JNull
  | JBool bool
  | JNum int
  | JStr string
  | JArr "json list"
  | JObj "(string \<times> json) list"

text \<open>
  \<open>requests.get(url, timeout=5)\<close> either raises (timeout, connection error: \<open>Raises\<close>)
  or returns a response with a status code and a body; the body is \<open>None\<close> when
  \<open>response.json()\<close> raises on it (malformed JSON). The network is a function from the
  requested URL to that outcome.
\<close>

datatype http_result = Raises | Response int "json option"

type_synonym requests = "string \<Rightarrow> http_result"

text \<open>Python's truth value of a decoded JSON value.\<close>

fun truthy :: "json \<Rightarrow> bool" where
  "truthy JNull = False"
| "truthy (JBool b) = b"
| "truthy (JNum n) = (n \<noteq> 0)"
| "truthy (JStr s) = (s \<noteq> [])"
| "truthy (JArr xs) = (xs \<noteq> [])"
| "truthy (JObj kvs) = (kvs \<noteq> [])"

text \<open>
  \<open>data.get(key, default)\<close>: only a dict has \<open>get\<close>; on any other value the attribute
  lookup raises AttributeError (\<open>None\<close>).
\<close>

fun dict_get :: "json \<Rightarrow> string \<Rightarrow> json \<Rightarrow> json option" where
  "dict_get (JObj kvs) key dflt =
     Some (case map_of kvs key of None \<Rightarrow> dflt | Some v \<Rightarrow> v)"
| "dict_get _ key dflt = None"

text \<open>
  \<open>v[:100]\<close>: a string and a list are sliced; a number, a boolean, null and a dict
  raise TypeError (\<open>None\<close>).
\<close>

fun slice100 :: "json \<Rightarrow> json option" where
  "slice100 (JStr s) = Some (JStr (take 100 s))"
| "slice100 (JArr xs) = Some (JArr (take 100 xs))"
| "slice100 _ = None"

text \<open>\<open>v[:100] if v else 'Unknown'\<close>\<close>

definition field100 :: "json \<Rightarrow> json option" where
  "field100 v = (if truthy v then slice100 v else Some (JStr ''Unknown''))"

text \<open>The dict with the keys \<open>country\<close> and \<open>city\<close>.\<close>

record location =
  loc_country :: json
  loc_city :: json

definition local_location :: location where
  "local_location = \<lparr>loc_country = JStr ''Local'', loc_city = JStr ''Local''\<rparr>"

definition unknown_location :: location where
  "unknown_location = \<lparr>loc_country = JStr ''Unknown'', loc_city = JStr ''Unknown''\<rparr>"

definition primary_url :: "string \<Rightarrow> string" where
  "primary_url ip_address = ''https://ipapi.co/'' @ ip_address @ ''/json/''"

definition secondary_url :: "string \<Rightarrow> string" where
  "secondary_url ip_address = ''http://ip-api.com/json/'' @ ip_address"

text \<open>
  How a \<open>try\<close> body ends: an exception was raised, a \<open>return\<close> was reached, or control
  fell out of the body's end.
\<close>

datatype outcome = Raised | Returned location | FellThrough

definition build_location :: "json \<Rightarrow> json \<Rightarrow> outcome" where
  "build_location country city =
     (case field100 country of
        None \<Rightarrow> Raised
      | Some c \<Rightarrow>
          (case field100 city of
             None \<Rightarrow> Raised
           | Some ci \<Rightarrow> Returned \<lparr>loc_country = c, loc_city = ci\<rparr>))"

text \<open>The body of the outer \<open>try\<close>: the call to ipapi.co.\<close>

definition primary_attempt :: "requests \<Rightarrow> string \<Rightarrow> outcome" where
  "primary_attempt requests_get ip_address =
     (case requests_get (primary_url ip_address) of
        Raises \<Rightarrow> Raised
      | Response status_code body \<Rightarrow>
          if status_code = 200 then
            (case body of
               None \<Rightarrow> Raised
             | Some data \<Rightarrow>
                 (case dict_get data ''country_name'' (JStr ''Unknown'') of
                    None \<Rightarrow> Raised
                  | Some country \<Rightarrow>
                      (case dict_get data ''city'' (JStr ''Unknown'') of
                         None \<Rightarrow> Raised
                       | Some city \<Rightarrow> build_location country city)))
          else FellThrough)"

text \<open>The body of the inner \<open>try\<close>, inside the handler: the call to ip-api.com.\<close>

definition secondary_attempt :: "requests \<Rightarrow> string \<Rightarrow> outcome" where
  "secondary_attempt requests_get ip_address =
     (case requests_get (secondary_url ip_address) of
        Raises \<Rightarrow> Raised
      | Response status_code body \<Rightarrow>
          if status_code = 200 then
            (case body of
               None \<Rightarrow> Raised
             | Some data \<Rightarrow>
                 (case dict_get data ''status'' JNull of
                    None \<Rightarrow> Raised
                  | Some st \<Rightarrow>
                      if st = JStr ''success'' then
                        (case dict_get data ''country'' (JStr ''Unknown'') of
                           None \<Rightarrow> Raised
                         | Some country \<Rightarrow>
                             (case dict_get data ''city'' (JStr ''Unknown'') of
                                None \<Rightarrow> Raised
                              | Some city \<Rightarrow> build_location country city))
                      else FellThrough))
          else FellThrough)"

text \<open>
  \<open>get_location_from_ip\<close> returns the location and the list of URLs it requested, in
  order. The handler \<open>except Exception\<close> of the outer \<open>try\<close> is the only place that calls
  the second provider; its own \<open>try\<close> swallows every exception (\<open>pass\<close>). An input that
  is falsy (\<open>None\<close> or the empty string; both are the empty string here) or one of the
  three loopback names returns before any request.
\<close>

definition get_location_from_ip :: "requests \<Rightarrow> string \<Rightarrow> location \<times> string list" where
  "get_location_from_ip requests_get ip_address =
     (if ip_address = [] \<or> ip_address \<in> set [''127.0.0.1'', ''::1'', ''localhost'']
      then (local_location, [])
      else
        (case primary_attempt requests_get ip_address of
           Returned loc \<Rightarrow> (loc, [primary_url ip_address])
         | FellThrough \<Rightarrow> (unknown_location, [primary_url ip_address])
         | Raised \<Rightarrow>
             (case secondary_attempt requests_get ip_address of
                Returned loc \<Rightarrow> (loc, [primary_url ip_address, secondary_url ip_address])
              | FellThrough \<Rightarrow>
                  (unknown_location, [primary_url ip_address, secondary_url ip_address])
              | Raised \<Rightarrow>
                  (unknown_location, [primary_url ip_address, secondary_url ip_address]))))"

section \<open>core/models.py: Click\<close>

text \<open>
  \<open>pk\<close> is \<open>None\<close> until the row is inserted. \<open>url\<close> is the foreign key to the link, here
  the key of its row. \<open>country\<close> and \<open>city\<close> hold what \<open>get_location_from_ip\<close> returned;
  the blank default of every derived field is the empty string.
\<close>

record Click =
  pk :: "nat option"
  url :: string
  ip_address :: string
  user_agent :: string
  referer :: string
  country :: json
  city :: json
  device_type :: string
  browser :: string
  operating_system :: string
  clicked_at :: "datetime option"

text \<open>The five derived fields of a click.\<close>

definition derived :: "Click \<Rightarrow> string \<times> string \<times> string \<times> json \<times> json" where
  "derived c = (device_type c, browser c, operating_system c, country c, city c)"

text \<open>
  What a request handler finds around it: the clock, the network, the parser library,
  and the parts of Django and of the database backend that the project configures
  outside the core app or that belong to the libraries:
  \<^item> \<open>env_clean_ipv6\<close>: \<open>clean_ipv6_address\<close>, by which a GenericIPAddressField
    normalises an address that contains a colon before it is stored (the address itself
    where the function raises ValidationError);
  \<^item> \<open>env_str\<close>: Python's \<open>str\<close> of a decoded JSON value that is not a string, which is
    what a CharField stores for it;
  \<^item> \<open>env_accepts_click\<close>, \<open>env_accepts_link\<close>: whether the backend takes a row of the
    Click and of the ShortenedURL table (column types and lengths, the range of the
    counter column); where it does not, the statement raises, and the exception is
    written \<open>DataError\<close> whatever its class;
  \<^item> \<open>env_allowed_redirect\<close>: whether \<open>HttpResponseRedirect(url)\<close> can be built; it raises
    \<open>DisallowedRedirect\<close> for a URL whose scheme is not http, https or ftp.
\<close>

record env =
  env_now :: datetime
  env_requests :: requests
  env_ua_lib :: ua_library
  env_clean_ipv6 :: "string \<Rightarrow> string"
  env_str :: "json \<Rightarrow> string"
  env_accepts_click :: "Click \<Rightarrow> bool"
  env_accepts_link :: "ShortenedURL \<Rightarrow> bool"
  env_allowed_redirect :: "string \<Rightarrow> bool"

text \<open>
  The exceptions that leave the redirect view uncaught: the NOT NULL violation of an
  insert, a row that the backend refuses (with the table it was meant for), and the
  refusal to build a redirect.
\<close>

datatype table = ClickTable | LinkTable

datatype error = IntegrityError | DataError table | DisallowedRedirect

text \<open>\<open>populate_analytics_data\<close> returns the click and the URLs requested on the way.\<close>

definition populate_analytics_data :: "env \<Rightarrow> Click \<Rightarrow> Click \<times> string list" where
  "populate_analytics_data e c =
     (let c1 =
            (if user_agent c \<noteq> [] then
               (let ua = parse_user_agent (env_ua_lib e) (user_agent c)
                in c\<lparr>device_type := ua_device_type ua,
                     browser := ua_browser ua,
                     operating_system := ua_operating_system ua\<rparr>)
             else c)
      in if ip_address c1 \<noteq> [] then
           (let (location_data, requested) =
                  get_location_from_ip (env_requests e) (ip_address c1)
            in (c1\<lparr>country := loc_country location_data, city := loc_city location_data\<rparr>,
                requested))
         else (c1, []))"

text \<open>
  The storage layer: the ShortenedURL rows under their unique \<open>short_code\<close> (the key a
  row is looked up by and written back under; the redirect path never changes it), the
  Click rows in insertion order, and the last primary key the Click table gave out (an
  AutoField counts from 1, so no row has the key 0).
\<close>

record database =
  links :: "string \<rightharpoonup> ShortenedURL"
  click_records :: "Click list"
  last_pk :: nat

text \<open>
  The row that is written for a click. The fields are prepared for the database as
  their field classes do it: the GenericIPAddressField normalises an address with a
  colon, a CharField stores a value that is not a string as its \<open>str\<close>. The object in
  memory keeps its own values.
\<close>

definition text_of :: "env \<Rightarrow> json \<Rightarrow> json" where
  "text_of e v = (case v of JStr s \<Rightarrow> JStr s | _ \<Rightarrow> JStr (env_str e v))"

definition prepared :: "env \<Rightarrow> Click \<Rightarrow> Click" where
  "prepared e c =
     c\<lparr>ip_address :=
         (if CHR '':'' \<in> set (ip_address c) then env_clean_ipv6 e (ip_address c)
          else ip_address c),
       country := text_of e (country c),
       city := text_of e (city c)\<rparr>"

text \<open>
  Whether the Click table takes a prepared row. An empty address is sent as NULL, and
  the column is NOT NULL: IntegrityError. Anything else the backend refuses is a
  DataError.
\<close>

definition refused :: "env \<Rightarrow> Click \<Rightarrow> error option" where
  "refused e row =
     (if ip_address row = [] then Some IntegrityError
      else if \<not> env_accepts_click e row then Some (DataError ClickTable)
      else None)"

text \<open>
  \<open>Model.save\<close> of a Click returns the object, the storage and the exception raised,
  if any. An object without primary key is inserted: \<open>clicked_at\<close> is set by
  \<open>auto_now_add\<close>, and after the insert the object has the next key. One with a primary
  key overwrites the row of that key, and is inserted if there is none. Each statement
  is committed by itself (Django's autocommit; the code opens no transaction), and a
  statement that raises leaves the storage as it was.
\<close>

definition Click_super_save :: "env \<Rightarrow> Click \<Rightarrow> database \<Rightarrow> Click \<times> database \<times> error option" where
  "Click_super_save e c db =
     (case pk c of
        None \<Rightarrow>
          (let c1 = c\<lparr>clicked_at := Some (env_now e)\<rparr>
           in case refused e (prepared e c1) of
                Some err \<Rightarrow> (c1, db, Some err)
              | None \<Rightarrow>
                  (let c2 = c1\<lparr>pk := Some (Suc (last_pk db))\<rparr>
                   in (c2, db\<lparr>click_records := click_records db @ [prepared e c2],
                              last_pk := Suc (last_pk db)\<rparr>, None)))
      | Some k \<Rightarrow>
          if list_ex (\<lambda>row. pk row = Some k) (click_records db) then
            (case refused e (prepared e c) of
               Some err \<Rightarrow> (c, db, Some err)
             | None \<Rightarrow>
                 (c, db\<lparr>click_records :=
                          map (\<lambda>row. if pk row = Some k then prepared e c else row)
                            (click_records db)\<rparr>, None))
          else
            (let c1 = c\<lparr>clicked_at := Some (env_now e)\<rparr>
             in case refused e (prepared e c1) of
                  Some err \<Rightarrow> (c1, db, Some err)
                | None \<Rightarrow>
                    (c1, db\<lparr>click_records := click_records db @ [prepared e c1]\<rparr>, None)))"

text \<open>
  \<open>Click.save\<close>: \<open>if not self.pk: self.populate_analytics_data()\<close>, then the save.
  \<open>not self.pk\<close> holds for \<open>None\<close> and for the key 0. The result is the object, the
  storage, the exception raised, if any, and the URLs requested.
\<close>

definition Click_save ::
  "env \<Rightarrow> Click \<Rightarrow> database \<Rightarrow> Click \<times> database \<times> error option \<times> string list"
where
  "Click_save e c db =
     (let (c1, requested) =
            (if pk c = None \<or> pk c = Some 0 then populate_analytics_data e c else (c, []));
          (c2, db1, err) = Click_super_save e c1 db
      in (c2, db1, err, requested))"

text \<open>
  \<open>Click.objects.create(url=.., ip_address=.., user_agent=.., referer=..)\<close> builds the
  object, every other field at its default, and saves it.
\<close>

definition new_click :: "string \<Rightarrow> string \<Rightarrow> string \<Rightarrow> string \<Rightarrow> Click" where
  "new_click link ip ua ref =
     \<lparr>pk = None, url = link, ip_address = ip, user_agent = ua, referer = ref,
      country = JStr [], city = JStr [], device_type = [], browser = [],
      operating_system = [], clicked_at = None\<rparr>"

definition Click_objects_create ::
  "env \<Rightarrow> database \<Rightarrow> string \<Rightarrow> string \<Rightarrow> string \<Rightarrow> string
     \<Rightarrow> Click \<times> database \<times> error option \<times> string list"
where
  "Click_objects_create e db link ip ua ref = Click_save e (new_click link ip ua ref) db"

text \<open>
  \<open>url.save()\<close> of a ShortenedURL loaded under \<open>code\<close>: every field of the object is
  written to the row; \<open>updated_at\<close> is \<open>auto_now\<close>. A row the backend refuses (a counter
  beyond the column's range) raises and leaves the storage as it was.
\<close>

definition ShortenedURL_save ::
  "env \<Rightarrow> string \<Rightarrow> ShortenedURL \<Rightarrow> database \<Rightarrow> database \<times> error option"
where
  "ShortenedURL_save e code l db =
     (let l1 = l\<lparr>updated_at := env_now e\<rparr>
      in if env_accepts_link e l1 then (db\<lparr>links := (links db)(code \<mapsto> l1)\<rparr>, None)
         else (db, Some (DataError LinkTable)))"

section \<open>core/views.py: RedirectView\<close>

text \<open>
  The part of the request the view reads: four entries of \<open>META\<close> (a missing header is
  \<open>None\<close>; the server always sets \<open>REMOTE_ADDR\<close>) and the session dict.
\<close>

record request =
  HTTP_X_FORWARDED_FOR :: "string option"
  REMOTE_ADDR :: string
  HTTP_USER_AGENT :: "string option"
  HTTP_REFERER :: "string option"
  session :: "string \<rightharpoonup> bool"

definition get_client_ip :: "request \<Rightarrow> string" where
  "get_client_ip req =
     (case HTTP_X_FORWARDED_FOR req of
        None \<Rightarrow> REMOTE_ADDR req
      | Some x_forwarded_for \<Rightarrow>
          if x_forwarded_for \<noteq> [] then takeWhile (\<lambda>c. c \<noteq> CHR '','') x_forwarded_for
          else REMOTE_ADDR req)"

text \<open>
  A redirect goes either to a literal URL or to the URL that \<open>reverse\<close> gives a named
  route (the root URL configuration is outside the repository's core app).
\<close>

datatype target = Url string | Reverse string string

text \<open>
  What the client gets: a page, a redirect, or Django's answer to an exception that
  left the view (\<open>Http404\<close> from \<open>get_object_or_404\<close>; any other one is \<open>Uncaught\<close>).
\<close>

datatype response = Http404 | Render string | HttpResponseRedirect target | Uncaught error

text \<open>\<open>request.session.get('password_verified_<short_code>', False)\<close>\<close>

definition password_verified :: "request \<Rightarrow> string \<Rightarrow> bool" where
  "password_verified req code =
     (case session req (''password_verified_'' @ code) of None \<Rightarrow> False | Some b \<Rightarrow> b)"

text \<open>
  \<open>RedirectView.get\<close> returns the response, the new storage and the URLs requested.
  \<open>get_object_or_404\<close> raises \<open>Http404\<close> for an unknown code, which Django answers with a
  404 response. On the allowed path three calls can raise, and the view catches none
  of them: \<open>Click.objects.create\<close>, after which nothing is written; \<open>url.save()\<close>, after
  which the Click row stays and the counter is not written; and
  \<open>HttpResponseRedirect(url.original_url)\<close>, which is built last, after both writes.
\<close>

definition RedirectView_get ::
  "env \<Rightarrow> database \<Rightarrow> request \<Rightarrow> string \<Rightarrow> response \<times> database \<times> string list"
where
  "RedirectView_get e db req code =
     (case links db code of
        None \<Rightarrow> (Http404, db, [])
      | Some l \<Rightarrow>
          if \<not> can_be_accessed l (env_now e) then
            (Render ''core/link_not_available.html'', db, [])
          else if has_password l \<and> \<not> password_verified req code then
            (HttpResponseRedirect (Reverse ''core:password_prompt'' code), db, [])
          else
            (let (c, db1, err, requested) =
                   Click_objects_create e db code (get_client_ip req)
                     (case HTTP_USER_AGENT req of None \<Rightarrow> [] | Some ua \<Rightarrow> ua)
                     (case HTTP_REFERER req of None \<Rightarrow> [] | Some r \<Rightarrow> r)
             in case err of
                  Some x \<Rightarrow> (Uncaught x, db1, requested)
                | None \<Rightarrow>
                    (let l1 = l\<lparr>clicks := clicks l + 1\<rparr>;
                         (db2, err2) = ShortenedURL_save e code l1 db1
                     in case err2 of
                          Some x \<Rightarrow> (Uncaught x, db2, requested)
                        | None \<Rightarrow>
                            if env_allowed_redirect e (original_url l1)
                            then (HttpResponseRedirect (Url (original_url l1)), db2, requested)
                            else (Uncaught DisallowedRedirect, db2, requested))))"

text \<open>Requests for one short code served one after the other, each with its own surroundings.\<close>

fun serve_all :: "string \<Rightarrow> (env \<times> request) list \<Rightarrow> database \<Rightarrow> response list \<times> database" where
  "serve_all code [] db = ([], db)"
| "serve_all code ((e, req) # rest) db =
     (let (r, db1, requested) = RedirectView_get e db req code;
          (rs, db2) = serve_all code rest db1
      in (r # rs, db2))"

fun to_destination :: "response \<Rightarrow> bool" where
  "to_destination (HttpResponseRedirect (Url u)) = True"
| "to_destination _ = False"

text \<open>
  The responses after which the counter has been written (the redirect to the
  destination, and the refusal to build it), and those after which the Click row has
  been inserted (the same, and the failure of \<open>url.save()\<close>).
\<close>

fun counter_written :: "response \<Rightarrow> bool" where
  "counter_written (HttpResponseRedirect (Url u)) = True"
| "counter_written (Uncaught DisallowedRedirect) = True"
| "counter_written _ = False"

fun click_inserted :: "response \<Rightarrow> bool" where
  "click_inserted (HttpResponseRedirect (Url u)) = True"
| "click_inserted (Uncaught DisallowedRedirect) = True"
| "click_inserted (Uncaught (DataError LinkTable)) = True"
| "click_inserted _ = False"

text \<open>
  Requests served at the same time. A worker runs \<open>RedirectView.get\<close> for one request;
  between two of its storage operations other workers may run. Its three operations
  are: loading the row and deciding (\<open>get_object_or_404\<close>, \<open>can_be_accessed\<close>, the
  password check); inserting the Click (\<open>Click.objects.create\<close>); and
  \<open>url.clicks += 1; url.save()\<close> on the object it loaded, followed by the building of
  the response. An operation that raises ends the worker.
\<close>

datatype worker =
    Start request string
  | Loaded request string ShortenedURL
  | Recorded string ShortenedURL
  | Finished response

fun worker_step :: "env \<Rightarrow> worker \<Rightarrow> database \<Rightarrow> worker \<times> database" where
  "worker_step e (Start req code) db =
     (case links db code of
        None \<Rightarrow> (Finished Http404, db)
      | Some l \<Rightarrow>
          if \<not> can_be_accessed l (env_now e) then
            (Finished (Render ''core/link_not_available.html''), db)
          else if has_password l \<and> \<not> password_verified req code then
            (Finished (HttpResponseRedirect (Reverse ''core:password_prompt'' code)), db)
          else (Loaded req code l, db))"
| "worker_step e (Loaded req code l) db =
     (let (c, db1, err, requested) =
            Click_objects_create e db code (get_client_ip req)
              (case HTTP_USER_AGENT req of None \<Rightarrow> [] | Some ua \<Rightarrow> ua)
              (case HTTP_REFERER req of None \<Rightarrow> [] | Some r \<Rightarrow> r)
      in case err of
           Some x \<Rightarrow> (Finished (Uncaught x), db1)
         | None \<Rightarrow> (Recorded code l, db1))"
| "worker_step e (Recorded code l) db =
     (let l1 = l\<lparr>clicks := clicks l + 1\<rparr>;
          (db2, err2) = ShortenedURL_save e code l1 db
      in case err2 of
           Some x \<Rightarrow> (Finished (Uncaught x), db2)
         | None \<Rightarrow>
             if env_allowed_redirect e (original_url l1)
             then (Finished (HttpResponseRedirect (Url (original_url l1))), db2)
             else (Finished (Uncaught DisallowedRedirect), db2))"
| "worker_step e (Finished r) db = (Finished r, db)"

text \<open>A schedule names, step by step, the worker that performs its next operation.\<close>

definition step :: "env \<Rightarrow> worker list \<times> database \<Rightarrow> nat \<Rightarrow> worker list \<times> database" where
  "step e st i =
     (case st of (ws, db) \<Rightarrow>
        if i < length ws then
          (case worker_step e (ws ! i) db of (w, db1) \<Rightarrow> (ws[i := w], db1))
        else (ws, db))"

definition run :: "env \<Rightarrow> nat list \<Rightarrow> worker list \<times> database \<Rightarrow> worker list \<times> database" where
  "run e schedule st = foldl (step e) st schedule"

text \<open>
  A worker has inserted its Click once \<open>Click.objects.create\<close> has returned: it is
  about to write the counter, or it has ended with a response that comes after the
  insert.
\<close>

fun recorded :: "worker \<Rightarrow> bool" where
  "recorded (Recorded code l) = True"
| "recorded (Finished r) = click_inserted r"
| "recorded _ = False"

fun redirected :: "worker \<Rightarrow> bool" where
  "redirected (Finished r) = to_destination r"
| "redirected _ = False"

fun starting :: "worker \<Rightarrow> bool" where
  "starting (Start req code) = True"
| "starting _ = False"

fun finished_with :: "worker \<Rightarrow> response option" where
  "finished_with (Finished r) = Some r"
| "finished_with _ = None"

section \<open>Concrete inputs\<close>

text \<open>An active link without expiry and password, whose click limit is 0.\<close>

definition zero_quota_link :: ShortenedURL where
  "zero_quota_link =
     \<lparr>original_url = ''https://example.com/'', short_code = ''abc123'', clicks = 0,
      is_active = True, updated_at = 0, expires_at = None, password = [],
      max_clicks = Some 0\<rparr>"

text \<open>The link of the specification's scenarios: active, no expiry, no quota, no password.\<close>

definition plain_link :: ShortenedURL where
  "plain_link =
     \<lparr>original_url = ''https://example.com/'', short_code = ''abc123'', clicks = 0,
      is_active = True, updated_at = 0, expires_at = None, password = [],
      max_clicks = None\<rparr>"

definition db_with :: "ShortenedURL \<Rightarrow> database" where
  "db_with l = \<lparr>links = [short_code l \<mapsto> l], click_records = [], last_pk = 0\<rparr>"

text \<open>
  Surroundings in which every request to a provider times out and the parser library
  is absent. The backend is one that checks no length or type (as SQLite) and holds a
  counter up to \<open>2^63 - 1\<close>; a URL can be redirected to when it starts with \<open>http://\<close> or
  \<open>https://\<close>.
\<close>

definition offline :: env where
  "offline =
     \<lparr>env_now = 0, env_requests = (\<lambda>u. Raises), env_ua_lib = None,
      env_clean_ipv6 = (\<lambda>ip. ip), env_str = (\<lambda>v. ''[]''),
      env_accepts_click = (\<lambda>row. True),
      env_accepts_link = (\<lambda>l. int (clicks l) \<le> 9223372036854775807),
      env_allowed_redirect = (\<lambda>u. prefix ''http://'' u \<or> prefix ''https://'' u)\<rparr>"

definition plain_request :: request where
  "plain_request =
     \<lparr>HTTP_X_FORWARDED_FOR = None, REMOTE_ADDR = ''127.0.0.1'', HTTP_USER_AGENT = None,
      HTTP_REFERER = None, session = Map.empty\<rparr>"

text \<open>A hasher that stores the password behind a marker, and verifies by comparison.\<close>

definition marker_hasher :: hasher where
  "marker_hasher =
     \<lparr>make_password = (\<lambda>raw. ''plain$'' @ raw),
      hashers_check_password = (\<lambda>raw encoded. encoded = ''plain$'' @ raw)\<rparr>"

text \<open>
  A network whose first provider answers 429 (rate limit) and whose second provider
  answers 200 with an explicit success status.
\<close>

definition rate_limited :: requests where
  "rate_limited u =
     (if u = primary_url ''8.8.8.8'' then Response 429 (Some (JObj [(''error'', JBool True)]))
      else Response 200
             (Some (JObj [(''status'', JStr ''success''), (''country'', JStr ''United States''),
                          (''city'', JStr ''Ashburn'')])))"

text \<open>The link of the scenarios with \<open>expires_at\<close> a day before the clock of \<^const>\<open>offline\<close>.\<close>

definition expired_link :: ShortenedURL where
  "expired_link = plain_link\<lparr>expires_at := Some (- 86400)\<rparr>"

text \<open>Surroundings whose network is \<^const>\<open>rate_limited\<close>, a minute later.\<close>

definition online :: env where
  "online = offline\<lparr>env_now := 60, env_requests := rate_limited\<rparr>"

text \<open>A network whose first provider answers every request with a location.\<close>

definition answering :: requests where
  "answering u =
     Response 200
       (Some (JObj [(''country_name'', JStr ''United States''),
                    (''city'', JStr ''Mountain View'')]))"

definition located :: env where
  "located = offline\<lparr>env_requests := answering\<rparr>"

definition firefox_click :: Click where
  "firefox_click =
     new_click ''abc123'' ''8.8.8.8'' ''Mozilla/5.0 (X11; Linux x86_64) Firefox/120.0'' []"

text \<open>The click above as its first save in \<^const>\<open>located\<close> leaves it, with the key 1.\<close>

definition saved_firefox_click :: Click where
  "saved_firefox_click =
     \<lparr>pk = Some 1, url = ''abc123'', ip_address = ''8.8.8.8'',
      user_agent = ''Mozilla/5.0 (X11; Linux x86_64) Firefox/120.0'', referer = [],
      country = JStr ''United States'', city = JStr ''Mountain View'',
      device_type = ''Desktop'', browser = ''Firefox'', operating_system = ''Linux'',
      clicked_at = Some 0\<rparr>"

definition android_chrome :: string where
  "android_chrome = ''Mozilla/5.0 (Linux; Android 10; K) AppleWebKit/537.36 (KHTML, like Gecko) Chrome/120.0.0.0 Mobile Safari/537.36''"

text \<open>Two visits of the plain link: one after the other, and at the same time.\<close>

definition two_visits :: "(env \<times> request) list" where
  "two_visits = [(offline, plain_request), (offline, plain_request)]"

definition two_workers :: "worker list" where
  "two_workers = [Start plain_request ''abc123'', Start plain_request ''abc123'']"

section \<open>Access policy of a link\<close>

lemma can_be_accessed_iff:
  "can_be_accessed l now \<longleftrightarrow> is_active l \<and> \<not> is_expired l now \<and> \<not> quota_reached l"
  by (simp add: can_be_accessed_def)

lemma is_expired_iff:
  "\<not> is_expired l now \<longleftrightarrow> (case expires_at l of None \<Rightarrow> True | Some e \<Rightarrow> now \<le> e)"
  by (auto simp: is_expired_def split: option.splits)

lemma inactive_denied: "\<not> is_active l \<Longrightarrow> \<not> can_be_accessed l now"
  by (simp add: can_be_accessed_def)

lemma expired_denied: "expires_at l = Some e \<Longrightarrow> e < now \<Longrightarrow> \<not> can_be_accessed l now"
  by (simp add: can_be_accessed_def is_expired_def)

lemma quota_reached_spec:
  "max_clicks l \<noteq> Some 0 \<Longrightarrow> quota_reached l = quota_exhausted_spec l"
  by (auto simp: quota_reached_def quota_exhausted_spec_def split: option.splits)

text \<open>Away from the click limit 0 the code and the specification's rule agree.\<close>

lemma can_be_accessed_spec_nonzero:
  "max_clicks l \<noteq> Some 0 \<Longrightarrow> can_be_accessed l now = can_be_accessed_spec l now"
  by (simp add: can_be_accessed_iff is_expired_iff can_be_accessed_spec_def quota_reached_spec)

lemma positive_quota_denied:
  "max_clicks l = Some m \<Longrightarrow> 0 < m \<Longrightarrow> m \<le> clicks l \<Longrightarrow> \<not> can_be_accessed l now"
  by (simp add: can_be_accessed_def quota_reached_def)

lemma below_quota_allowed:
  "max_clicks l = Some m \<Longrightarrow> clicks l < m \<Longrightarrow> is_active l \<Longrightarrow> \<not> is_expired l now
     \<Longrightarrow> can_be_accessed l now"
  by (simp add: can_be_accessed_def quota_reached_def)

text \<open>
  C1. The claim: \<open>can_be_accessed()\<close> is true exactly when the link is active, not
  expired (no \<open>expires_at\<close>, or \<open>now <= expires_at\<close>) and its quota is not exhausted,
  where a quota is exhausted when \<open>max_clicks\<close> is set and \<open>clicks >= max_clicks\<close>.
  The code's \<open>self.max_clicks and ...\<close> takes the limit 0 for no limit: the active,
  unexpired link with \<open>max_clicks = 0\<close> and \<open>clicks = 0\<close> can be accessed, although its
  quota is exhausted. (For inactive and for expired links the result is false, and
  for every other limit the equivalence holds: the lemmas above.)
\<close>

theorem can_be_accessed_zero_quota:
  "can_be_accessed zero_quota_link 0 \<and> \<not> can_be_accessed_spec zero_quota_link 0"
  by (simp add: can_be_accessed_def can_be_accessed_spec_def is_expired_def quota_reached_def
      quota_exhausted_spec_def zero_quota_link_def)

text \<open>
  C2. The claim: a link whose \<open>max_clicks\<close> is set, the value 0 included, and whose
  \<open>clicks >= max_clicks\<close> is denied. With \<open>max_clicks = 0\<close> and \<open>clicks = 0\<close> the
  redirect view does not deny: it redirects to the destination and the counter
  becomes 1.
\<close>

theorem zero_quota_redirects:
  "max_clicks zero_quota_link = Some 0 \<and> clicks zero_quota_link \<ge> 0 \<and>
   fst (RedirectView_get offline (db_with zero_quota_link) plain_request ''abc123'')
     = HttpResponseRedirect (Url ''https://example.com/'') \<and>
   map_option clicks
     (links (fst (snd (RedirectView_get offline (db_with zero_quota_link) plain_request ''abc123'')))
        ''abc123'') = Some 1"
  by (simp add: RedirectView_get_def db_with_def zero_quota_link_def can_be_accessed_def
      is_expired_def quota_reached_def has_password_def offline_def Click_objects_create_def
      Click_save_def Click_super_save_def new_click_def populate_analytics_data_def
      plain_request_def get_client_ip_def get_location_from_ip_def ShortenedURL_save_def
      refused_def prepared_def text_of_def local_location_def Let_def split_def)

section \<open>Password check\<close>

text \<open>
  C4. For a link with an empty password field \<open>check_password\<close> is true for every
  input. For a link whose password was set (\<open>set_password\<close> with a non-empty
  password) it is true for that password and false for every other non-empty
  candidate. The second part rests on the library's hasher: an encoded password is
  never empty, and the library's check accepts exactly the password that was encoded.
\<close>

theorem check_password_rule:
  assumes "\<And>raw. raw \<noteq> [] \<Longrightarrow> make_password h raw \<noteq> []"
      and "\<And>raw cand. hashers_check_password h cand (make_password h raw) = (cand = raw)"
  shows "(password l = [] \<longrightarrow> check_password h l x)
       \<and> (raw \<noteq> [] \<longrightarrow> check_password h (set_password h l raw) raw)
       \<and> (raw \<noteq> [] \<and> cand \<noteq> [] \<and> cand \<noteq> raw
            \<longrightarrow> \<not> check_password h (set_password h l raw) cand)"
  using assms by (simp add: check_password_def set_password_def)

theorem check_password_rule_witness:
  "check_password marker_hasher plain_link ''anything''
   \<and> check_password marker_hasher (set_password marker_hasher plain_link ''s3cret'') ''s3cret''
   \<and> \<not> check_password marker_hasher (set_password marker_hasher plain_link ''s3cret'') ''guess''"
proof -
  have a: "\<And>raw. raw \<noteq> [] \<Longrightarrow> make_password marker_hasher raw \<noteq> []"
    by (simp add: marker_hasher_def)
  have b: "\<And>raw cand. hashers_check_password marker_hasher cand (make_password marker_hasher raw)
             = (cand = raw)"
    by (auto simp: marker_hasher_def)
  have p: "password plain_link = []" by (simp add: plain_link_def)
  show ?thesis
    using check_password_rule [OF a b, of plain_link "''anything''" "''s3cret''" "''guess''"] p
    by simp
qed

section \<open>Geolocation\<close>

text \<open>
  C6. For an IP that is empty or one of \<open>127.0.0.1\<close>, \<open>::1\<close>, \<open>localhost\<close>,
  \<open>get_location_from_ip\<close> returns country and city \<open>Local\<close> and requests no URL,
  whatever the network would answer.
\<close>

theorem local_ip_no_request:
  "ip = [] \<or> ip \<in> {''127.0.0.1'', ''::1'', ''localhost''}
     \<Longrightarrow> get_location_from_ip net ip
           = (\<lparr>loc_country = JStr ''Local'', loc_city = JStr ''Local''\<rparr>, [])"
  by (auto simp: get_location_from_ip_def local_location_def)

theorem local_ip_no_request_witness:
  "get_location_from_ip rate_limited ''127.0.0.1''
     = (\<lparr>loc_country = JStr ''Local'', loc_city = JStr ''Local''\<rparr>, [])"
  using local_ip_no_request [of "''127.0.0.1''" rate_limited] by simp

lemma non_local_ip:
  "ip \<noteq> [] \<Longrightarrow> ip \<notin> {''127.0.0.1'', ''::1'', ''localhost''} \<Longrightarrow>
     get_location_from_ip net ip =
       (case primary_attempt net ip of
          Returned loc \<Rightarrow> (loc, [primary_url ip])
        | FellThrough \<Rightarrow> (unknown_location, [primary_url ip])
        | Raised \<Rightarrow>
            (case secondary_attempt net ip of
               Returned loc \<Rightarrow> (loc, [primary_url ip, secondary_url ip])
             | _ \<Rightarrow> (unknown_location, [primary_url ip, secondary_url ip])))"
  by (auto simp: get_location_from_ip_def split: outcome.splits)

text \<open>A timeout, a connection error and a body that is not JSON raise inside the outer \<open>try\<close>.\<close>

lemma primary_raises:
  "net (primary_url ip) = Raises \<or> net (primary_url ip) = Response 200 None
     \<Longrightarrow> primary_attempt net ip = Raised"
  by (auto simp: primary_attempt_def)

text \<open>A status other than 200 raises nothing: control leaves the \<open>try\<close> at its end.\<close>

lemma primary_not_200:
  "net (primary_url ip) = Response code body \<Longrightarrow> code \<noteq> 200
     \<Longrightarrow> primary_attempt net ip = FellThrough"
  by (simp add: primary_attempt_def)

text \<open>
  When the first provider fails by an exception, the second one is requested, and the
  answer is its location or \<open>Unknown\<close>.
\<close>

lemma primary_failure_by_exception:
  "ip \<noteq> [] \<Longrightarrow> ip \<notin> {''127.0.0.1'', ''::1'', ''localhost''} \<Longrightarrow>
   primary_attempt net ip = Raised \<Longrightarrow>
     snd (get_location_from_ip net ip) = [primary_url ip, secondary_url ip]
   \<and> fst (get_location_from_ip net ip) =
       (case secondary_attempt net ip of Returned loc \<Rightarrow> loc | _ \<Rightarrow> unknown_location)"
  by (simp add: non_local_ip split: outcome.splits)

text \<open>The second provider's location is taken only from a 200 answer whose status is \<open>success\<close>.\<close>

lemma secondary_needs_success:
  "secondary_attempt net ip = Returned loc \<Longrightarrow>
     \<exists>data. net (secondary_url ip) = Response 200 (Some data)
          \<and> dict_get data ''status'' JNull = Some (JStr ''success'')"
  by (auto simp: secondary_attempt_def split: http_result.splits if_splits option.splits)

lemma primary_not_200_unknown:
  "ip \<noteq> [] \<Longrightarrow> ip \<notin> {''127.0.0.1'', ''::1'', ''localhost''} \<Longrightarrow>
   net (primary_url ip) = Response code body \<Longrightarrow> code \<noteq> 200 \<Longrightarrow>
     get_location_from_ip net ip = (unknown_location, [primary_url ip])"
  by (simp add: non_local_ip primary_not_200)

text \<open>
  C5. The claim: whenever the first provider fails, a non-200 answer included, the
  second provider is called and its result accepted if it reports success. The call
  to the second provider sits in the exception handler of the first, and a non-200
  answer raises no exception: for \<open>8.8.8.8\<close>, with the first provider answering 429 and
  the second one ready to answer 200 with status \<open>success\<close>, only the first URL is
  requested and the result is \<open>Unknown\<close>/\<open>Unknown\<close>. (The function returns a value on
  every path, and after an exception in the first call it behaves as claimed: the
  lemmas above.)
\<close>

theorem rate_limit_skips_second_provider:
  "get_location_from_ip rate_limited ''8.8.8.8''
     = (\<lparr>loc_country = JStr ''Unknown'', loc_city = JStr ''Unknown''\<rparr>,
        [''https://ipapi.co/8.8.8.8/json/''])
   \<and> secondary_attempt rate_limited ''8.8.8.8''
     = Returned \<lparr>loc_country = JStr ''United States'', loc_city = JStr ''Ashburn''\<rparr>"
  by (simp add: get_location_from_ip_def primary_attempt_def secondary_attempt_def
      rate_limited_def primary_url_def secondary_url_def unknown_location_def
      build_location_def field100_def)

section \<open>The fallback classifier\<close>

lemma str_in_sublist: "str_in sub s = sublist sub s"
  by (induction s) (auto simp: sublist_Cons_right)

text \<open>
  C9. For every non-empty user-agent string the fallback classifier gives, for device,
  browser and operating system, the label of the first rule of the keyword table
  that matches the lower-cased string: Mobile for mobile/android/iphone/ipod, Tablet
  for ipad/tablet, else Desktop; Chrome (unless edge occurs), Firefox, Safari (unless
  chrome occurs), Edge, Opera for opera/opr, Internet Explorer for msie/trident, else
  Unknown; Windows, macOS for macintosh/mac os, Linux, Android, iOS for
  ios/iphone/ipad, else Unknown.
\<close>

theorem fallback_follows_table:
  "user_agent_string \<noteq> [] \<Longrightarrow>
     parse_user_agent_fallback user_agent_string = classify_by_table user_agent_string"
  by (simp add: parse_user_agent_fallback_def classify_by_table_def device_table_def
      browser_table_def os_table_def str_in_sublist Let_def)

theorem fallback_follows_table_witness:
  "android_chrome \<noteq> [] \<and>
   parse_user_agent_fallback android_chrome
     = \<lparr>ua_device_type = ''Mobile'', ua_browser = ''Chrome'', ua_operating_system = ''Linux''\<rparr>"
proof -
  have n: "android_chrome \<noteq> []" by (simp add: android_chrome_def)
  have t: "classify_by_table android_chrome
     = \<lparr>ua_device_type = ''Mobile'', ua_browser = ''Chrome'', ua_operating_system = ''Linux''\<rparr>"
    by code_simp
  show ?thesis using fallback_follows_table [OF n] n t by simp
qed

section \<open>Enrichment of a click\<close>

text \<open>
  C10. A click whose \<open>user_agent\<close> is empty keeps its \<open>device_type\<close>, \<open>browser\<close> and
  \<open>operating_system\<close> through \<open>populate_analytics_data\<close>, and one whose \<open>ip_address\<close> is
  empty keeps \<open>country\<close> and \<open>city\<close> and causes no request; for a click as
  \<open>Click.objects.create\<close> builds it these fields are the empty string, not \<open>Unknown\<close>
  (nor \<open>Local\<close>), whatever the parser library and the network are.
\<close>

theorem populate_skips_empty_inputs:
  "(user_agent c = [] \<longrightarrow>
       device_type (fst (populate_analytics_data e c)) = device_type c
     \<and> browser (fst (populate_analytics_data e c)) = browser c
     \<and> operating_system (fst (populate_analytics_data e c)) = operating_system c)
   \<and> (ip_address c = [] \<longrightarrow>
       country (fst (populate_analytics_data e c)) = country c
     \<and> city (fst (populate_analytics_data e c)) = city c
     \<and> snd (populate_analytics_data e c) = [])
   \<and> (device_type (fst (populate_analytics_data e (new_click link ip [] ref))) = []
     \<and> browser (fst (populate_analytics_data e (new_click link ip [] ref))) = []
     \<and> operating_system (fst (populate_analytics_data e (new_click link ip [] ref))) = [])
   \<and> (country (fst (populate_analytics_data e (new_click link [] ua ref))) = JStr []
     \<and> city (fst (populate_analytics_data e (new_click link [] ua ref))) = JStr [])"
  by (simp add: populate_analytics_data_def Let_def split_def new_click_def)

theorem populate_skips_empty_inputs_witness:
  "user_agent (new_click ''abc123'' [] [] []) = []
   \<and> ip_address (new_click ''abc123'' [] [] []) = []
   \<and> device_type (fst (populate_analytics_data online (new_click ''abc123'' [] [] []))) = []
   \<and> browser (fst (populate_analytics_data online (new_click ''abc123'' [] [] []))) = []
   \<and> operating_system (fst (populate_analytics_data online (new_click ''abc123'' [] [] []))) = []
   \<and> country (fst (populate_analytics_data online (new_click ''abc123'' [] [] []))) = JStr []
   \<and> city (fst (populate_analytics_data online (new_click ''abc123'' [] [] []))) = JStr []
   \<and> snd (populate_analytics_data online (new_click ''abc123'' [] [] [])) = []"
proof -
  have a: "user_agent (new_click ''abc123'' [] [] []) = []"
    and b: "ip_address (new_click ''abc123'' [] [] []) = []"
    by (simp_all add: new_click_def)
  have d: "device_type (new_click ''abc123'' [] [] []) = []"
    "browser (new_click ''abc123'' [] [] []) = []"
    "operating_system (new_click ''abc123'' [] [] []) = []"
    "country (new_click ''abc123'' [] [] []) = JStr []"
    "city (new_click ''abc123'' [] [] []) = JStr []"
    by (simp_all add: new_click_def)
  show ?thesis
    using populate_skips_empty_inputs [of "new_click ''abc123'' [] [] []" online] a b d
    by simp
qed

lemma populate_keeps_pk: "pk (fst (populate_analytics_data e c)) = pk c"
  by (simp add: populate_analytics_data_def Let_def split_def)

lemma populate_keeps_raw:
  "ip_address (fst (populate_analytics_data e c)) = ip_address c
   \<and> user_agent (fst (populate_analytics_data e c)) = user_agent c"
  by (simp add: populate_analytics_data_def Let_def split_def)

lemma text_of_string: "text_of e (JStr s) = JStr s"
  by (simp add: text_of_def)

lemma prepared_fields:
  "pk (prepared e c) = pk c \<and> device_type (prepared e c) = device_type c
   \<and> browser (prepared e c) = browser c \<and> operating_system (prepared e c) = operating_system c
   \<and> country (prepared e c) = text_of e (country c) \<and> city (prepared e c) = text_of e (city c)"
  by (simp add: prepared_def)

lemma refused_empty_ip: "ip_address c = [] \<Longrightarrow> refused e (prepared e c) = Some IntegrityError"
  by (simp add: refused_def prepared_def)

lemma refused_errors:
  "refused e row = Some x \<Longrightarrow> x = IntegrityError \<or> x = DataError ClickTable"
  by (auto simp: refused_def split: if_splits)

text \<open>What the computation of the derived fields yields.\<close>

lemma populate_computes:
  "(user_agent c \<noteq> [] \<longrightarrow>
       device_type (fst (populate_analytics_data e c))
         = ua_device_type (parse_user_agent (env_ua_lib e) (user_agent c))
     \<and> browser (fst (populate_analytics_data e c))
         = ua_browser (parse_user_agent (env_ua_lib e) (user_agent c))
     \<and> operating_system (fst (populate_analytics_data e c))
         = ua_operating_system (parse_user_agent (env_ua_lib e) (user_agent c)))
   \<and> (ip_address c \<noteq> [] \<longrightarrow>
       country (fst (populate_analytics_data e c))
         = loc_country (fst (get_location_from_ip (env_requests e) (ip_address c)))
     \<and> city (fst (populate_analytics_data e c))
         = loc_city (fst (get_location_from_ip (env_requests e) (ip_address c)))
     \<and> snd (populate_analytics_data e c)
         = snd (get_location_from_ip (env_requests e) (ip_address c)))"
  by (simp add: populate_analytics_data_def Let_def split_def)

lemma Click_super_save_derived: "derived (fst (Click_super_save e c db)) = derived c"
  by (simp add: Click_super_save_def derived_def Let_def split: option.splits)

lemma Click_super_save_new:
  assumes "pk c = None" and "Click_super_save e c db = (c1, db1, None)"
  shows "pk c1 = Some (Suc (last_pk db)) \<and> ip_address c \<noteq> []
       \<and> click_records db1 = click_records db @ [prepared e c1]"
proof -
  have "ip_address c \<noteq> []"
  proof
    assume "ip_address c = []"
    then have "refused e (prepared e (c\<lparr>clicked_at := Some (env_now e)\<rparr>)) = Some IntegrityError"
      by (simp add: refused_empty_ip)
    then show False using assms by (simp add: Click_super_save_def Let_def)
  qed
  then show ?thesis
    using assms by (auto simp: Click_super_save_def Let_def split: option.splits)
qed

lemma Click_save_new:
  assumes "pk c = None" and "Click_save e c db = (c1, db1, None, requested)"
  shows "derived c1 = derived (fst (populate_analytics_data e c))
       \<and> requested = snd (populate_analytics_data e c)
       \<and> pk c1 = Some (Suc (last_pk db)) \<and> ip_address c \<noteq> []
       \<and> click_records db1 = click_records db @ [prepared e c1]"
proof -
  let ?p = "fst (populate_analytics_data e c)"
  obtain a b x where q: "Click_super_save e ?p db = (a, b, x)"
    by (metis prod_cases3)
  have s: "Click_super_save e ?p db = (c1, db1, None)"
    and r: "requested = snd (populate_analytics_data e c)"
    using assms q by (simp_all add: Click_save_def Let_def split_def)
  have n: "pk ?p = None" using assms(1) by (simp add: populate_keeps_pk)
  have d: "derived c1 = derived ?p"
    using Click_super_save_derived [of e ?p db] s by simp
  from Click_super_save_new [OF n s] d r show ?thesis
    by (simp add: populate_keeps_raw)
qed

text \<open>A save of a click that has a key: no derived field changes and nothing is requested.\<close>

lemma Click_save_existing:
  "pk c = Some k \<Longrightarrow> k \<noteq> 0 \<Longrightarrow>
     derived (fst (Click_save e c db)) = derived c
   \<and> snd (snd (snd (Click_save e c db))) = []"
  by (simp add: Click_save_def split_def Let_def Click_super_save_derived)

lemma Click_save_existing_row:
  assumes "pk c = Some k" and "k \<noteq> 0" and "fst (snd (snd (Click_save e c db))) = None"
  shows "(\<exists>row \<in> set (click_records (fst (snd (Click_save e c db)))). pk row = Some k)
       \<and> (\<forall>row \<in> set (click_records (fst (snd (Click_save e c db)))).
            pk row = Some k \<longrightarrow> derived row = derived (prepared e c))"
proof (cases "list_ex (\<lambda>row. pk row = Some k) (click_records db)")
  case True
  then obtain row0 where r0: "row0 \<in> set (click_records db)" "pk row0 = Some k"
    by (auto simp: list_ex_iff)
  have ok: "refused e (prepared e c) = None"
    using assms True
    by (auto simp: Click_save_def Click_super_save_def split_def Let_def split: option.splits)
  have rows: "click_records (fst (snd (Click_save e c db)))
                = map (\<lambda>row. if pk row = Some k then prepared e c else row) (click_records db)"
    using assms True ok
    by (simp add: Click_save_def Click_super_save_def split_def Let_def)
  have "prepared e c \<in> set (click_records (fst (snd (Click_save e c db))))"
    unfolding rows using r0 by (auto simp: image_iff intro!: bexI [of _ row0])
  moreover have "pk (prepared e c) = Some k" using assms(1) by (simp add: prepared_fields)
  ultimately have ex: "\<exists>row \<in> set (click_records (fst (snd (Click_save e c db)))). pk row = Some k"
    by blast
  have "\<forall>row \<in> set (click_records (fst (snd (Click_save e c db)))).
            pk row = Some k \<longrightarrow> derived row = derived (prepared e c)"
    unfolding rows by auto
  with ex show ?thesis by simp
next
  case False
  have "derived (prepared e (c\<lparr>clicked_at := Some (env_now e)\<rparr>)) = derived (prepared e c)"
    by (simp add: derived_def prepared_def)
  then show ?thesis
    using assms False
    by (auto simp: Click_save_def Click_super_save_def split_def Let_def list_ex_iff
        prepared_fields split: option.splits)
qed

lemma firefox_parsed:
  "parse_user_agent None ''Mozilla/5.0 (X11; Linux x86_64) Firefox/120.0''
     = \<lparr>ua_device_type = ''Desktop'', ua_browser = ''Firefox'', ua_operating_system = ''Linux''\<rparr>"
  by code_simp

lemma firefox_saved:
  "Click_save located firefox_click (db_with plain_link)
     = (saved_firefox_click,
        (db_with plain_link)\<lparr>click_records := [saved_firefox_click], last_pk := 1\<rparr>,
        None, [''https://ipapi.co/8.8.8.8/json/''])"
  by (simp add: Click_save_def Click_super_save_def populate_analytics_data_def
      firefox_click_def new_click_def located_def offline_def firefox_parsed
      get_location_from_ip_def primary_attempt_def primary_url_def answering_def
      build_location_def field100_def refused_def prepared_def text_of_def
      saved_firefox_click_def db_with_def Let_def split_def)

text \<open>
  C8. The derived fields of a click are computed at its first save, from the raw
  fields it has then: when the save has inserted the row, \<open>device_type\<close>, \<open>browser\<close> and
  \<open>operating_system\<close> are what the classifier gives for the \<open>user_agent\<close> (an empty
  one is not classified), \<open>country\<close> and \<open>city\<close> are what the geolocator gives for the
  \<open>ip_address\<close>, and the row written is the click with these values. Every later save
  of the click, in whatever surroundings, leaves the five derived fields of the object
  as they are, requests nothing, and writes them unchanged to its row; so after an
  edit of \<open>ip_address\<close> and \<open>user_agent\<close> a save keeps the derived fields of the first
  save.
\<close>

theorem derived_fields_computed_once:
  assumes "pk c = None" and "Click_save e c db = (c1, db1, None, requested)"
  shows "(user_agent c \<noteq> [] \<longrightarrow>
            device_type c1 = ua_device_type (parse_user_agent (env_ua_lib e) (user_agent c))
          \<and> browser c1 = ua_browser (parse_user_agent (env_ua_lib e) (user_agent c))
          \<and> operating_system c1
              = ua_operating_system (parse_user_agent (env_ua_lib e) (user_agent c)))
       \<and> country c1 = loc_country (fst (get_location_from_ip (env_requests e) (ip_address c)))
       \<and> city c1 = loc_city (fst (get_location_from_ip (env_requests e) (ip_address c)))
       \<and> requested = snd (get_location_from_ip (env_requests e) (ip_address c))
       \<and> click_records db1 = click_records db @ [prepared e c1]
       \<and> (pk c' = pk c1 \<longrightarrow>
             derived (fst (Click_save e' c' db')) = derived c'
           \<and> snd (snd (snd (Click_save e' c' db'))) = []
           \<and> (fst (snd (snd (Click_save e' c' db'))) = None \<longrightarrow>
                (\<forall>row \<in> set (click_records (fst (snd (Click_save e' c' db')))).
                   pk row = pk c1 \<longrightarrow> derived row = derived (prepared e' c'))))
       \<and> derived (fst (Click_save e' (c1\<lparr>ip_address := ip', user_agent := ua'\<rparr>) db'))
           = derived c1"
proof -
  note n = Click_save_new [OF assms]
  have p: "pk c1 = Some (Suc (last_pk db))" and i: "ip_address c \<noteq> []" using n by simp_all
  have d: "derived c1 = derived (fst (populate_analytics_data e c))" using n by simp
  have u: "user_agent c \<noteq> [] \<longrightarrow>
            device_type c1 = ua_device_type (parse_user_agent (env_ua_lib e) (user_agent c))
          \<and> browser c1 = ua_browser (parse_user_agent (env_ua_lib e) (user_agent c))
          \<and> operating_system c1
              = ua_operating_system (parse_user_agent (env_ua_lib e) (user_agent c))"
    using d populate_computes [of c e] by (simp add: derived_def)
  have g: "country c1 = loc_country (fst (get_location_from_ip (env_requests e) (ip_address c)))
       \<and> city c1 = loc_city (fst (get_location_from_ip (env_requests e) (ip_address c)))
       \<and> requested = snd (get_location_from_ip (env_requests e) (ip_address c))"
    using d i n populate_computes [of c e] by (simp add: derived_def)
  have r: "click_records db1 = click_records db @ [prepared e c1]" using n by simp
  have s: "pk c' = pk c1 \<longrightarrow>
             derived (fst (Click_save e' c' db')) = derived c'
           \<and> snd (snd (snd (Click_save e' c' db'))) = []
           \<and> (fst (snd (snd (Click_save e' c' db'))) = None \<longrightarrow>
                (\<forall>row \<in> set (click_records (fst (snd (Click_save e' c' db')))).
                   pk row = pk c1 \<longrightarrow> derived row = derived (prepared e' c')))"
    using p Click_save_existing [of c' "Suc (last_pk db)" e' db']
      Click_save_existing_row [of c' "Suc (last_pk db)" e' db'] by simp
  have "pk (c1\<lparr>ip_address := ip', user_agent := ua'\<rparr>) = Some (Suc (last_pk db))"
    using p by simp
  then have "derived (fst (Click_save e' (c1\<lparr>ip_address := ip', user_agent := ua'\<rparr>) db'))
               = derived (c1\<lparr>ip_address := ip', user_agent := ua'\<rparr>)"
    using Click_save_existing [of "c1\<lparr>ip_address := ip', user_agent := ua'\<rparr>" "Suc (last_pk db)" e' db']
    by simp
  then have t: "derived (fst (Click_save e' (c1\<lparr>ip_address := ip', user_agent := ua'\<rparr>) db')) = derived c1"
    by (simp add: derived_def)
  show ?thesis using u g r s t by simp
qed

theorem derived_fields_computed_once_witness:
  "pk firefox_click = None
   \<and> Click_save located firefox_click (db_with plain_link)
       = (saved_firefox_click,
          (db_with plain_link)\<lparr>click_records := [saved_firefox_click], last_pk := 1\<rparr>,
          None, [''https://ipapi.co/8.8.8.8/json/''])
   \<and> derived saved_firefox_click
       = (''Desktop'', ''Firefox'', ''Linux'', JStr ''United States'', JStr ''Mountain View'')
   \<and> derived (fst (Click_save offline
                      (saved_firefox_click\<lparr>ip_address := ''1.1.1.1'', user_agent := ''curl/8.0''\<rparr>)
                      ((db_with plain_link)\<lparr>click_records := [saved_firefox_click], last_pk := 1\<rparr>)))
       = (''Desktop'', ''Firefox'', ''Linux'', JStr ''United States'', JStr ''Mountain View'')"
proof -
  have a: "pk firefox_click = None" by (simp add: firefox_click_def new_click_def)
  have v: "derived saved_firefox_click
       = (''Desktop'', ''Firefox'', ''Linux'', JStr ''United States'', JStr ''Mountain View'')"
    by (simp add: derived_def saved_firefox_click_def)
  show ?thesis
    using derived_fields_computed_once [OF a firefox_saved,
        where e' = offline and ip' = "''1.1.1.1''" and ua' = "''curl/8.0''"
          and db' = "(db_with plain_link)\<lparr>click_records := [saved_firefox_click], last_pk := 1\<rparr>"]
      a firefox_saved v
    by simp
qed


section \<open>The redirect view\<close>

text \<open>
  C7. A request for a link that cannot be accessed (inactive, expired or over its
  quota) is answered with the page \<open>core/link_not_available.html\<close>; the storage is
  returned as it was (no Click row, the link's counter and fields untouched) and no
  URL is requested.
\<close>

theorem denied_changes_nothing:
  "links db code = Some l \<Longrightarrow> \<not> can_be_accessed l (env_now e)
     \<Longrightarrow> RedirectView_get e db req code = (Render ''core/link_not_available.html'', db, [])"
  by (simp add: RedirectView_get_def)

theorem denied_changes_nothing_witness:
  "links (db_with expired_link) ''abc123'' = Some expired_link
   \<and> \<not> can_be_accessed expired_link (env_now offline)
   \<and> RedirectView_get offline (db_with expired_link) plain_request ''abc123''
       = (Render ''core/link_not_available.html'', db_with expired_link, [])"
proof -
  have a: "links (db_with expired_link) ''abc123'' = Some expired_link"
    by (simp add: db_with_def expired_link_def plain_link_def)
  have b: "\<not> can_be_accessed expired_link (env_now offline)"
    by (simp add: can_be_accessed_def is_expired_def expired_link_def plain_link_def offline_def)
  show ?thesis
    using denied_changes_nothing [OF a b, of plain_request] a b by simp
qed

section \<open>The click counter\<close>

text \<open>
  The insert of \<open>Click.objects.create\<close>: one more row when it returns, none when it
  raises; the links are not touched.
\<close>

lemma create_effect:
  assumes "Click_objects_create e db link ip ua ref = (c, db1, err, requested)"
  shows "links db1 = links db
       \<and> length (click_records db1) = length (click_records db) + (if err = None then 1 else 0)
       \<and> (\<forall>x. err = Some x \<longrightarrow> x = IntegrityError \<or> x = DataError ClickTable)"
proof -
  let ?p = "fst (populate_analytics_data e (new_click link ip ua ref))"
  have n: "pk ?p = None" by (simp add: populate_keeps_pk new_click_def)
  have s: "Click_super_save e ?p db = (c, db1, err)"
    using assms
    by (cases "Click_super_save e ?p db")
       (simp add: Click_objects_create_def Click_save_def new_click_def Let_def split_def)
  show ?thesis
  proof (cases "refused e (prepared e (?p\<lparr>clicked_at := Some (env_now e)\<rparr>))")
    case None
    then show ?thesis using s n by (auto simp: Click_super_save_def Let_def)
  next
    case (Some x)
    have "db1 = db" "err = Some x"
      using s n Some by (simp_all add: Click_super_save_def Let_def)
    then show ?thesis using refused_errors [OF Some] by auto
  qed
qed

lemma save_effect:
  "ShortenedURL_save e code l db = (db1, err) \<Longrightarrow>
     click_records db1 = click_records db
   \<and> (err = None \<longrightarrow> links db1 = (links db)(code \<mapsto> l\<lparr>updated_at := env_now e\<rparr>))
   \<and> (err \<noteq> None \<longrightarrow> db1 = db \<and> err = Some (DataError LinkTable))"
  by (auto simp: ShortenedURL_save_def Let_def split: if_splits)

text \<open>
  One request, served alone: the counter is one higher after exactly the responses
  that come after the counter write, and there is one more Click row after exactly
  those that come after the insert.
\<close>

lemma redirect_effect:
  assumes "links db code = Some l" and "RedirectView_get e db req code = (r, db1, requested)"
  shows "(\<exists>l1. links db1 code = Some l1
            \<and> clicks l1 = clicks l + (if counter_written r then 1 else 0))
       \<and> length (click_records db1)
           = length (click_records db) + (if click_inserted r then 1 else 0)"
proof (cases "\<not> can_be_accessed l (env_now e) \<or> (has_password l \<and> \<not> password_verified req code)")
  case True
  then show ?thesis using assms by (auto simp: RedirectView_get_def split: if_splits)
next
  case False
  obtain c dbc err tr where cr:
    "Click_objects_create e db code (get_client_ip req)
       (case HTTP_USER_AGENT req of None \<Rightarrow> [] | Some ua \<Rightarrow> ua)
       (case HTTP_REFERER req of None \<Rightarrow> [] | Some r \<Rightarrow> r) = (c, dbc, err, tr)"
    by (metis prod_cases4)
  note ce = create_effect [OF cr]
  show ?thesis
  proof (cases err)
    case (Some x)
    then have "r = Uncaught x" "db1 = dbc"
      using assms False cr by (auto simp: RedirectView_get_def Let_def)
    then show ?thesis using ce Some assms(1) by auto
  next
    case None
    obtain db2 err2 where sv:
      "ShortenedURL_save e code (l\<lparr>clicks := clicks l + 1\<rparr>) dbc = (db2, err2)"
      by (cases "ShortenedURL_save e code (l\<lparr>clicks := clicks l + 1\<rparr>) dbc")
    note se = save_effect [OF sv]
    show ?thesis
    proof (cases err2)
      case (Some y)
      then have "r = Uncaught (DataError LinkTable)" "db1 = dbc"
        using assms False cr None sv se by (auto simp: RedirectView_get_def Let_def)
      then show ?thesis using ce None assms(1) by auto
    next
      case None2: None
      have "db1 = db2"
        and "r = HttpResponseRedirect (Url (original_url l)) \<or> r = Uncaught DisallowedRedirect"
        using assms False cr None sv None2
        by (auto simp: RedirectView_get_def Let_def split: if_splits)
      then show ?thesis using ce se None None2 by auto
    qed
  qed
qed

lemma serve_all_length: "length (fst (serve_all code reqs db)) = length reqs"
  by (induction reqs arbitrary: db) (auto simp: split_def Let_def)

lemma sequential_redirects_count:
  "links db code = Some l \<Longrightarrow>
     (\<exists>l1. links (snd (serve_all code reqs db)) code = Some l1
         \<and> clicks l1 = clicks l + length (filter counter_written (fst (serve_all code reqs db))))
   \<and> length (click_records (snd (serve_all code reqs db)))
       = length (click_records db) + length (filter click_inserted (fst (serve_all code reqs db)))"
proof (induction reqs arbitrary: db l)
  case Nil
  then show ?case by simp
next
  case (Cons a reqs)
  obtain e req where a: "a = (e, req)" by (cases a)
  obtain r db1 requested where g: "RedirectView_get e db req code = (r, db1, requested)"
    by (metis prod_cases3)
  from redirect_effect [OF Cons.prems g]
  obtain l1 where l1: "links db1 code = Some l1"
      "clicks l1 = clicks l + (if counter_written r then 1 else 0)"
    and n: "length (click_records db1)
              = length (click_records db) + (if click_inserted r then 1 else 0)"
    by auto
  from Cons.IH [OF l1(1)] show ?case
    using a g l1(2) n by (auto simp: split_def Let_def)
qed

lemma all_to_destination:
  "list_all to_destination rs \<Longrightarrow>
     filter counter_written rs = rs \<and> filter click_inserted rs = rs"
proof (induction rs)
  case Nil
  then show ?case by simp
next
  case (Cons r rs)
  then have "to_destination r" by simp
  then have "counter_written r \<and> click_inserted r"
    by (cases r rule: to_destination.cases) auto
  with Cons show ?case by simp
qed

text \<open>A worker that runs its three operations without interruption is \<open>RedirectView.get\<close>.\<close>

lemma worker_alone:
  "RedirectView_get e db req code = (r, db1, requested) \<Longrightarrow>
     run e [0, 0, 0] ([Start req code], db) = ([Finished r], db1)"
  by (auto simp: run_def step_def RedirectView_get_def Let_def split_def
      split: option.splits if_splits)

lemma worker_step_rows:
  assumes "worker_step e w db = (w1, db1)"
  shows "length (click_records db1) + (if recorded w then 1 else 0)
           = length (click_records db) + (if recorded w1 then 1 else 0)"
proof (cases w)
  case (Start req code)
  then show ?thesis using assms by (auto split: option.splits if_splits)
next
  case (Loaded req code l)
  obtain c dbc err tr where cr:
    "Click_objects_create e db code (get_client_ip req)
       (case HTTP_USER_AGENT req of None \<Rightarrow> [] | Some ua \<Rightarrow> ua)
       (case HTTP_REFERER req of None \<Rightarrow> [] | Some r \<Rightarrow> r) = (c, dbc, err, tr)"
    by (metis prod_cases4)
  from create_effect [OF cr] show ?thesis
    using assms Loaded cr by (cases err) auto
next
  case (Recorded code l)
  obtain db2 err2 where sv:
    "ShortenedURL_save e code (l\<lparr>clicks := clicks l + 1\<rparr>) db = (db2, err2)"
    by (cases "ShortenedURL_save e code (l\<lparr>clicks := clicks l + 1\<rparr>) db")
  from save_effect [OF sv] show ?thesis
    using assms Recorded sv by (cases err2) (auto simp: Let_def split: if_splits)
next
  case (Finished r)
  then show ?thesis using assms by auto
qed

lemma count_update:
  "i < length ws \<Longrightarrow>
     length (filter P (ws[i := w])) + (if P (ws ! i) then 1 else 0)
       = length (filter P ws) + (if P w then 1 else 0)"
proof (induction ws arbitrary: i)
  case Nil
  then show ?case by simp
next
  case (Cons a ws)
  then show ?case by (cases i) auto
qed

lemma step_rows:
  "length (click_records (snd (step e (ws, db) i))) + length (filter recorded ws)
     = length (click_records db) + length (filter recorded (fst (step e (ws, db) i)))"
proof (cases "i < length ws")
  case True
  obtain w1 db1 where ws: "worker_step e (ws ! i) db = (w1, db1)"
    by (cases "worker_step e (ws ! i) db")
  from worker_step_rows [OF ws] count_update [OF True, of recorded w1]
  show ?thesis using True ws by (auto simp: step_def split: if_splits)
next
  case False
  then show ?thesis by (simp add: step_def)
qed

lemma step_length: "length (fst (step e (ws, db) i)) = length ws"
  by (simp add: step_def split_def)

lemma run_rows:
  "length (click_records (snd (run e schedule (ws, db)))) + length (filter recorded ws)
     = length (click_records db) + length (filter recorded (fst (run e schedule (ws, db))))
   \<and> length (fst (run e schedule (ws, db))) = length ws"
proof (induction schedule arbitrary: ws db)
  case Nil
  then show ?case by (simp add: run_def)
next
  case (Cons i schedule)
  obtain ws1 db1 where s: "step e (ws, db) i = (ws1, db1)" by (cases "step e (ws, db) i")
  from step_rows [of e ws db i] step_length [of e ws db i] s
  have a: "length (click_records db1) + length (filter recorded ws)
             = length (click_records db) + length (filter recorded ws1)"
    and len: "length ws1 = length ws" by simp_all
  from Cons.IH [of ws1 db1]
  have b: "length (click_records (snd (run e schedule (ws1, db1)))) + length (filter recorded ws1)
     = length (click_records db1) + length (filter recorded (fst (run e schedule (ws1, db1))))"
    and c: "length (fst (run e schedule (ws1, db1))) = length ws1" by simp_all
  have r: "run e (i # schedule) (ws, db) = run e schedule (ws1, db1)"
    using s by (simp add: run_def)
  show ?case using a b c len r by simp
qed

lemma starting_not_recorded: "list_all starting ws \<Longrightarrow> filter recorded ws = []"
proof (induction ws)
  case Nil
  then show ?case by simp
next
  case (Cons w ws)
  then show ?case by (cases w) auto
qed

lemma all_redirected: "list_all redirected ws \<Longrightarrow> filter recorded ws = ws"
proof (induction ws)
  case Nil
  then show ?case by simp
next
  case (Cons w ws)
  then have "redirected w" by simp
  then obtain r where "w = Finished r" "to_destination r"
    by (cases w) auto
  then have "recorded w"
    by (cases r rule: to_destination.cases) auto
  with Cons show ?case by simp
qed

lemma concurrent_rows:
  "list_all starting ws \<Longrightarrow>
     length (click_records (snd (run e schedule (ws, db))))
       = length (click_records db) + length (filter recorded (fst (run e schedule (ws, db))))
   \<and> length (fst (run e schedule (ws, db))) = length ws"
  using run_rows [of e schedule ws db] by (simp add: starting_not_recorded)

text \<open>
  A client chooses the address that is recorded: with \<open>X-Forwarded-For: ,8.8.8.8\<close> it is
  empty, the insert raises, and neither a row nor the counter is written.
\<close>

lemma empty_client_ip_raises:
  "fst (RedirectView_get offline (db_with plain_link)
          (plain_request\<lparr>HTTP_X_FORWARDED_FOR := Some '',8.8.8.8''\<rparr>) ''abc123'')
     = Uncaught IntegrityError
   \<and> click_records (fst (snd (RedirectView_get offline (db_with plain_link)
          (plain_request\<lparr>HTTP_X_FORWARDED_FOR := Some '',8.8.8.8''\<rparr>) ''abc123''))) = []
   \<and> map_option clicks (links (fst (snd (RedirectView_get offline (db_with plain_link)
          (plain_request\<lparr>HTTP_X_FORWARDED_FOR := Some '',8.8.8.8''\<rparr>) ''abc123''))) ''abc123'')
       = Some 0"
  by code_simp

text \<open>
  C3, as stated, fails. The claim: the increment is atomic at the storage layer, so
  that N concurrent allowed redirects raise \<open>clicks\<close> by exactly N. The view reads the
  row, adds one in memory and writes the row back (\<open>url.clicks += 1; url.save()\<close>).
  Two workers for the plain link (counter 0) that take turns operation by operation
  both answer with the redirect to the destination and insert two Click rows, and
  the counter ends at 1.
\<close>

theorem interleaved_redirects_lose_update:
  "map finished_with (fst (run offline [0, 1, 0, 1, 0, 1] (two_workers, db_with plain_link)))
     = [Some (HttpResponseRedirect (Url ''https://example.com/'')),
        Some (HttpResponseRedirect (Url ''https://example.com/''))]
   \<and> map_option clicks (links (db_with plain_link) ''abc123'') = Some 0
   \<and> map_option clicks
       (links (snd (run offline [0, 1, 0, 1, 0, 1] (two_workers, db_with plain_link))) ''abc123'')
       = Some 1
   \<and> length (click_records (snd (run offline [0, 1, 0, 1, 0, 1] (two_workers, db_with plain_link))))
       = 2"
  by code_simp

text \<open>
  C3, amended. The increment is a read of the row followed by a write of the value
  read plus one. For requests for a link that are served one after the other,
  \<open>clicks\<close> rises by exactly the number of requests whose counter write succeeded and
  the Click table grows by exactly the number of requests whose insert succeeded; so N
  requests that are all answered with the redirect to the destination raise \<open>clicks\<close>
  by exactly N and add exactly N Click rows. For requests served at the same time,
  under any schedule of their storage operations, the Click table grows by exactly
  one row for each worker whose insert succeeded; so N workers that all answer with
  the redirect add exactly N Click rows. For their counter no such count is promised.
\<close>

theorem redirects_counted:
  assumes "links db code = Some l" and "list_all starting ws"
  shows "(\<exists>l1. links (snd (serve_all code reqs db)) code = Some l1
            \<and> clicks l1
                = clicks l + length (filter counter_written (fst (serve_all code reqs db)))
            \<and> (list_all to_destination (fst (serve_all code reqs db))
                 \<longrightarrow> clicks l1 = clicks l + length reqs))
       \<and> length (click_records (snd (serve_all code reqs db)))
           = length (click_records db)
             + length (filter click_inserted (fst (serve_all code reqs db)))
       \<and> (list_all to_destination (fst (serve_all code reqs db))
            \<longrightarrow> length (click_records (snd (serve_all code reqs db)))
                  = length (click_records db) + length reqs)
       \<and> length (click_records (snd (run e schedule (ws, db))))
           = length (click_records db)
             + length (filter recorded (fst (run e schedule (ws, db))))
       \<and> (list_all redirected (fst (run e schedule (ws, db)))
            \<longrightarrow> length (click_records (snd (run e schedule (ws, db))))
                  = length (click_records db) + length ws)"
proof -
  from sequential_redirects_count [OF assms(1), of reqs]
  obtain l1 where l1: "links (snd (serve_all code reqs db)) code = Some l1"
      "clicks l1 = clicks l + length (filter counter_written (fst (serve_all code reqs db)))"
    and rows: "length (click_records (snd (serve_all code reqs db)))
           = length (click_records db)
             + length (filter click_inserted (fst (serve_all code reqs db)))"
    by auto
  have all: "list_all to_destination (fst (serve_all code reqs db)) \<Longrightarrow>
               length (filter counter_written (fst (serve_all code reqs db))) = length reqs
             \<and> length (filter click_inserted (fst (serve_all code reqs db))) = length reqs"
    using all_to_destination [of "fst (serve_all code reqs db)"] serve_all_length [of code reqs db]
    by simp
  note conc = concurrent_rows [OF assms(2), of e schedule db]
  have red: "list_all redirected (fst (run e schedule (ws, db))) \<Longrightarrow>
               length (filter recorded (fst (run e schedule (ws, db)))) = length ws"
    using all_redirected [of "fst (run e schedule (ws, db))"] conc by simp
  show ?thesis using l1 rows all conc red by auto
qed

theorem redirects_counted_witness:
  "links (db_with plain_link) ''abc123'' = Some plain_link
   \<and> list_all starting two_workers
   \<and> fst (serve_all ''abc123'' two_visits (db_with plain_link))
       = [HttpResponseRedirect (Url ''https://example.com/''),
          HttpResponseRedirect (Url ''https://example.com/'')]
   \<and> (\<exists>l1. links (snd (serve_all ''abc123'' two_visits (db_with plain_link))) ''abc123'' = Some l1
          \<and> clicks l1 = 2)
   \<and> length (click_records (snd (serve_all ''abc123'' two_visits (db_with plain_link)))) = 2
   \<and> length (click_records
               (snd (run offline [0, 1, 0, 1, 0, 1] (two_workers, db_with plain_link))))
       = 2"
proof -
  have a: "links (db_with plain_link) ''abc123'' = Some plain_link"
    by (simp add: db_with_def plain_link_def)
  have b: "list_all starting two_workers"
    by (simp add: two_workers_def)
  have r: "fst (serve_all ''abc123'' two_visits (db_with plain_link))
       = [HttpResponseRedirect (Url ''https://example.com/''),
          HttpResponseRedirect (Url ''https://example.com/'')]"
    by code_simp
  have w: "list_all redirected
             (fst (run offline [0, 1, 0, 1, 0, 1] (two_workers, db_with plain_link)))"
    by code_simp
  have c: "clicks plain_link = 0" "click_records (db_with plain_link) = []"
    "length two_visits = 2" "length two_workers = 2"
    by (simp_all add: plain_link_def db_with_def two_visits_def two_workers_def)
  show ?thesis
    using redirects_counted [OF a b, of two_visits offline "[0, 1, 0, 1, 0, 1]"] a b r w c
    by (auto simp: numeral_2_eq_2)
qed


end
